theory Spec2Isabelle
  imports Complex_Main
begin

section \<open>Python values\<close>

text \<open>
  A Python \<open>str\<close> is a sequence of Unicode code points; a code point is a natural
  number. The sentences of the corpus are German text, and \<open>str.strip\<close> and the text-mode
  file layer look at code points, so the model keeps them as they are.
\<close>

type_synonym pystr = "nat list"

text \<open>
  An exception is modelled by the name of its class. A computation that may raise returns
  \<open>exn + 'a\<close>, with \<open>Inl\<close> for the exception that leaves the function.
\<close>

datatype exn = PyExc string

abbreviation IndexError :: exn where
  "IndexError \<equiv> PyExc ''IndexError''"

abbreviation AssertionError :: exn where
  "AssertionError \<equiv> PyExc ''AssertionError''"

abbreviation ValueError :: exn where
  "ValueError \<equiv> PyExc ''ValueError''"

abbreviation UnicodeDecodeError :: exn where
  "UnicodeDecodeError \<equiv> PyExc ''UnicodeDecodeError''"

text \<open>
  Subscription \<open>xs[i]\<close> of a Python list, and of the first axis of a numpy array. An index
  from \<open>0\<close> to \<open>len(xs) - 1\<close> selects from the front, an index from \<open>-len(xs)\<close> to \<open>-1\<close>
  selects from the back, and every other index raises \<open>IndexError\<close>.
\<close>

definition py_getitem :: "'a list \<Rightarrow> int \<Rightarrow> exn + 'a" where
  "py_getitem xs i =
     (if 0 \<le> i \<and> i < int (length xs) then Inr (xs ! nat i)
      else if i < 0 \<and> - int (length xs) \<le> i then Inr (xs ! nat (int (length xs) + i))
      else Inl IndexError)"

text \<open>
  A two-dimensional numpy array of shape \<open>(N, D)\<close>: \<open>ncols\<close> is \<open>shape[1]\<close>, the rows
  are the \<open>N\<close> vectors. The entries are finite floating-point numbers, written as the
  real numbers they denote. A numpy array has no ragged rows; \<open>rectangular\<close> says so for a
  value of the model.
\<close>

datatype ndarray = NDArray (ncols: nat) (rows: "real list list")

definition nrows :: "ndarray \<Rightarrow> nat" where
  "nrows a = length (rows a)"

definition rectangular :: "ndarray \<Rightarrow> bool" where
  "rectangular a = list_all (\<lambda>r. length r = ncols a) (rows a)"

section \<open>The FAISS library as the program calls it\<close>

text \<open>
  The program delegates storage and search to \<open>faiss.IndexFlatL2\<close>, a library outside the
  repository. The definitions of this section follow the library's Python interface:
  \<^item> \<open>IndexFlatL2(d)\<close> is an empty index of dimension \<open>d\<close>;
  \<^item> \<open>index.add(x)\<close> asserts \<open>x.shape[1] == d\<close> and appends the rows of \<open>x\<close>; the label of a
    vector is its position;
  \<^item> \<open>index.search(x, k)\<close> asserts \<open>x.shape[1] == d\<close> and \<open>k > 0\<close> and returns two arrays of
    shape \<open>(n, k)\<close>: for every query row the squared L2 distances and the labels of the
    nearest stored vectors by increasing distance. A stored vector is a candidate only
    when its computed distance is below the largest float; the comparison fails for a
    distance that has overflowed or is not a number. When fewer than \<open>k\<close> candidates
    exist, the row is filled up with label \<open>-1\<close> and the largest float.
  The library does not document the order of equal distances; the model lists them by
  increasing label.

  The library computes in float32. That arithmetic is not modelled here: the search takes
  the distance computation as a parameter, a function from two vectors to a \<open>fdist\<close>,
  which is a finite number, infinity, or not a number. \<open>exact_L2sqr\<close> is the squared
  distance without rounding; it agrees with the float32 computation wherever every
  intermediate value is representable, as in the examples evaluated below.
\<close>

record faiss_index =
  idx_d :: nat
  idx_xb :: "real list list"

definition ntotal :: "faiss_index \<Rightarrow> nat" where
  "ntotal ix = length (idx_xb ix)"

definition IndexFlatL2 :: "nat \<Rightarrow> faiss_index" where
  "IndexFlatL2 dm = \<lparr>idx_d = dm, idx_xb = []\<rparr>"

definition index_add :: "faiss_index \<Rightarrow> ndarray \<Rightarrow> exn + faiss_index" where
  "index_add ix x =
     (if ncols x \<noteq> idx_d ix then Inl AssertionError
      else Inr (ix\<lparr>idx_xb := idx_xb ix @ rows x\<rparr>))"

datatype fdist = Fin real | PosInf | NotANumber

type_synonym distance_computer = "real list \<Rightarrow> real list \<Rightarrow> fdist"

definition fvec_L2sqr :: "real list \<Rightarrow> real list \<Rightarrow> real" where
  "fvec_L2sqr x y = sum_list (map (\<lambda>(a, b). (a - b) * (a - b)) (zip x y))"

definition exact_L2sqr :: distance_computer where
  "exact_L2sqr x y = Fin (fvec_L2sqr x y)"

definition FLT_MAX :: real where
  "FLT_MAX = 340282346638528859811704183484516925440"

definition candidate :: "fdist \<Rightarrow> int \<Rightarrow> (int \<times> real) list" where
  "candidate v label =
     (case v of
        Fin d \<Rightarrow> if d < FLT_MAX then [(label, d)] else []
      | PosInf \<Rightarrow> []
      | NotANumber \<Rightarrow> [])"

definition labelled :: "distance_computer \<Rightarrow> real list \<Rightarrow> real list list \<Rightarrow> (int \<times> real) list" where
  "labelled dis q xb = concat (map (\<lambda>(i, y). candidate (dis q y) (int i)) (enumerate 0 xb))"

definition knn_L2sqr ::
  "distance_computer \<Rightarrow> real list list \<Rightarrow> nat \<Rightarrow> real list \<Rightarrow> (int \<times> real) list" where
  "knn_L2sqr dis xb k q =
     (let found = take k (sort_key snd (labelled dis q xb))
      in found @ replicate (k - length found) (- 1, FLT_MAX))"

definition index_search_with ::
  "distance_computer \<Rightarrow> faiss_index \<Rightarrow> ndarray \<Rightarrow> int
   \<Rightarrow> exn + (real list list \<times> int list list)" where
  "index_search_with dis ix x k =
     (if ncols x \<noteq> idx_d ix then Inl AssertionError
      else if k \<le> 0 then Inl AssertionError
      else let res = map (knn_L2sqr dis (idx_xb ix) (nat k)) (rows x)
           in Inr (map (map snd) res, map (map fst) res))"

definition index_search ::
  "faiss_index \<Rightarrow> ndarray \<Rightarrow> int \<Rightarrow> exn + (real list list \<times> int list list)" where
  "index_search ix x k = index_search_with exact_L2sqr ix x k"

section \<open>build\_index.py\<close>

text \<open>
  \<^verbatim>\<open>
  def create_faiss_index(embeddings):
      dimension = embeddings.shape[1]
      index = faiss.IndexFlatL2(dimension)
      index.add(embeddings)
      return index
  \<close>
\<close>

definition create_faiss_index :: "ndarray \<Rightarrow> exn + faiss_index" where
  "create_faiss_index embeddings =
     (let dimension = ncols embeddings;
          index = IndexFlatL2 dimension
      in index_add index embeddings)"

text \<open>
  \<^verbatim>\<open>
  def search(query_text, model, index, sentences, top_k=3):
      query_embedding = model.encode([query_text])
      distances, indices = index.search(query_embedding, top_k)
      results = []
      for i, idx in enumerate(indices[0]):
          results.append((sentences[idx], distances[0][i]))
      return results
  \<close>
  The encoder \<open>model.encode\<close> is a parameter: a function from a list of texts to an array,
  which may raise. The loop is a recursion over \<open>enumerate(indices[0])\<close> with the list
  \<open>results\<close> as accumulator; an exception inside the loop discards it.
\<close>

type_synonym encoder = "pystr list \<Rightarrow> exn + ndarray"

fun search_loop ::
  "pystr list \<Rightarrow> real list list \<Rightarrow> (nat \<times> int) list \<Rightarrow> (pystr \<times> real) list
   \<Rightarrow> exn + (pystr \<times> real) list" where
  "search_loop sentences distances [] results = Inr results"
| "search_loop sentences distances ((i, idx) # rest) results =
     (case py_getitem sentences idx of
        Inl e \<Rightarrow> Inl e
      | Inr s \<Rightarrow>
          (case py_getitem distances 0 of
             Inl e \<Rightarrow> Inl e
           | Inr row \<Rightarrow>
               (case py_getitem row (int i) of
                  Inl e \<Rightarrow> Inl e
                | Inr sc \<Rightarrow> search_loop sentences distances rest (results @ [(s, sc)]))))"

definition search ::
  "pystr \<Rightarrow> encoder \<Rightarrow> faiss_index \<Rightarrow> pystr list \<Rightarrow> int \<Rightarrow> exn + (pystr \<times> real) list" where
  "search query_text model index sentences top_k =
     (case model [query_text] of
        Inl e \<Rightarrow> Inl e
      | Inr query_embedding \<Rightarrow>
          (case index_search index query_embedding top_k of
             Inl e \<Rightarrow> Inl e
           | Inr (distances, indices) \<Rightarrow>
               (case py_getitem indices 0 of
                  Inl e \<Rightarrow> Inl e
                | Inr labels \<Rightarrow> search_loop sentences distances (enumerate 0 labels) [])))"

text \<open>
  The knowledge base on disk. A file is either a numpy array file or a text file; a path that
  the file system does not map is a file that does not exist. \<open>np.save\<close> and \<open>np.load\<close>
  belong to numpy; \<open>np.load\<close> raises \<open>EOFError\<close> on an empty file and \<open>ValueError\<close> on other
  content that is not an array. A text file holds the code points that were encoded into
  it.
\<close>

datatype kb_file = NpyFile ndarray | TextFile pystr

type_synonym filesystem = "string \<Rightarrow> kb_file option"

definition os_path_join :: "string \<Rightarrow> string \<Rightarrow> string" where
  "os_path_join a b =
     (if b \<noteq> [] \<and> hd b = CHR ''/'' then b
      else if a = [] \<or> last a = CHR ''/'' then a @ b
      else a @ ''/'' @ b)"

definition os_path_exists :: "filesystem \<Rightarrow> string \<Rightarrow> bool" where
  "os_path_exists fs path = (fs path \<noteq> None)"

definition np_load :: "filesystem \<Rightarrow> string \<Rightarrow> exn + ndarray" where
  "np_load fs path =
     (case fs path of
        None \<Rightarrow> Inl (PyExc ''FileNotFoundError'')
      | Some (NpyFile a) \<Rightarrow> Inr a
      | Some (TextFile t) \<Rightarrow> (if t = [] then Inl (PyExc ''EOFError'') else Inl ValueError))"

definition np_save :: "filesystem \<Rightarrow> string \<Rightarrow> ndarray \<Rightarrow> filesystem" where
  "np_save fs path a =
     (let target = (if drop (length path - 4) path = ''.npy'' then path else path @ ''.npy'')
      in fs(target \<mapsto> NpyFile a))"

text \<open>
  Text mode with the default \<open>newline=None\<close>: on reading, \<open>"\r\n"\<close> and \<open>"\r"\<close> become
  \<open>"\n"\<close> (code points 13 and 10). On writing, \<open>"\n"\<close> is written as the line separator of
  the platform, which reading turns back into \<open>"\n"\<close>; the model writes \<open>"\n"\<close>. \<open>readlines\<close> cuts the text after every \<open>"\n"\<close> and keeps
  it at the end of the line; a last line without \<open>"\n"\<close> is kept as it is.
\<close>

fun universal_newlines :: "pystr \<Rightarrow> pystr" where
  "universal_newlines [] = []"
| "universal_newlines [c] = [if c = 13 then 10 else c]"
| "universal_newlines (c # c' # cs) =
     (if c = 13 \<and> c' = 10 then 10 # universal_newlines cs
      else if c = 13 then 10 # universal_newlines (c' # cs)
      else c # universal_newlines (c' # cs))"

fun readlines_from :: "pystr \<Rightarrow> pystr \<Rightarrow> pystr list" where
  "readlines_from line [] = (if line = [] then [] else [line])"
| "readlines_from line (c # cs) =
     (if c = 10 then (line @ [c]) # readlines_from [] cs
      else readlines_from (line @ [c]) cs)"

definition readlines :: "pystr \<Rightarrow> pystr list" where
  "readlines text = readlines_from [] text"

definition open_read :: "filesystem \<Rightarrow> string \<Rightarrow> exn + pystr" where
  "open_read fs path =
     (case fs path of
        None \<Rightarrow> Inl (PyExc ''FileNotFoundError'')
      | Some (TextFile t) \<Rightarrow> Inr (universal_newlines t)
      | Some (NpyFile a) \<Rightarrow> Inl UnicodeDecodeError)"

text \<open>
  \<open>str.strip()\<close> removes the code points for which \<open>str.isspace\<close> holds from both ends.
\<close>

definition py_isspace :: "nat \<Rightarrow> bool" where
  "py_isspace c =
     ((9 \<le> c \<and> c \<le> 13) \<or> (28 \<le> c \<and> c \<le> 32) \<or> c = 133 \<or> c = 160 \<or> c = 5760
      \<or> (8192 \<le> c \<and> c \<le> 8202) \<or> c = 8232 \<or> c = 8233 \<or> c = 8239 \<or> c = 8287
      \<or> c = 12288)"

definition strip :: "pystr \<Rightarrow> pystr" where
  "strip s = rev (dropWhile py_isspace (rev (dropWhile py_isspace s)))"

text \<open>
  \<^verbatim>\<open>
  def load_knowledge_base(directory="knowledge_base"):
      embeddings_path = os.path.join(directory, "embeddings.npy")
      sentences_path = os.path.join(directory, "sentences.txt")
      if not os.path.exists(embeddings_path) or not os.path.exists(sentences_path):
          return None, None
      embeddings = np.load(embeddings_path)
      with open(sentences_path, "r", encoding="utf-8") as f:
          sentences = [line.strip() for line in f.readlines()]
      return embeddings, sentences
  \<close>
\<close>

definition load_knowledge_base ::
  "filesystem \<Rightarrow> string \<Rightarrow> exn + (ndarray option \<times> pystr list option)" where
  "load_knowledge_base fs directory =
     (let embeddings_path = os_path_join directory ''embeddings.npy'';
          sentences_path = os_path_join directory ''sentences.txt''
      in if \<not> os_path_exists fs embeddings_path \<or> \<not> os_path_exists fs sentences_path
         then Inr (None, None)
         else (case np_load fs embeddings_path of
                 Inl e \<Rightarrow> Inl e
               | Inr embeddings \<Rightarrow>
                   (case open_read fs sentences_path of
                      Inl e \<Rightarrow> Inl e
                    | Inr text \<Rightarrow> Inr (Some embeddings, Some (map strip (readlines text))))))"

section \<open>create\_embeddings.py\<close>

text \<open>
  The end of \<open>main\<close>, which writes the knowledge base:
  \<^verbatim>\<open>
  output_dir = "knowledge_base"
  embeddings_path = os.path.join(output_dir, "embeddings.npy")
  sentence_path = os.path.join(output_dir, "sentences.txt")
  np.save(embeddings_path, german_embeddings)
  with open(sentence_path, "w", encoding="utf-8") as f:
      for sentence in german_sentences:
          f.write(sentence + "\n")
  \<close>
  The loop appends to the text written so far. \<open>f.write\<close> encodes its argument as UTF-8:
  a code point from \<open>0xD800\<close> to \<open>0xDFFF\<close> (a surrogate) has no encoding, and the write
  raises \<open>UnicodeEncodeError\<close> before anything of that sentence is written. The exception
  leaves \<open>main\<close>; the file keeps the sentences written before. A Python \<open>str\<close> has no code
  point above \<open>0x10FFFF\<close>.
\<close>

definition utf8_encodable :: "pystr \<Rightarrow> bool" where
  "utf8_encodable s = list_all (\<lambda>c. c < 55296 \<or> (57343 < c \<and> c < 1114112)) s"

fun write_sentences :: "pystr \<Rightarrow> pystr list \<Rightarrow> pystr \<times> exn option" where
  "write_sentences written [] = (written, None)"
| "write_sentences written (sentence # rest) =
     (if utf8_encodable sentence then write_sentences (written @ sentence @ [10]) rest
      else (written, Some (PyExc ''UnicodeEncodeError'')))"

text \<open>
  The result is the file system after the call and the exception that ended it, if any.
\<close>

definition save_knowledge_base ::
  "filesystem \<Rightarrow> ndarray \<Rightarrow> pystr list \<Rightarrow> filesystem \<times> exn option" where
  "save_knowledge_base fs german_embeddings german_sentences =
     (let output_dir = ''knowledge_base'';
          embeddings_path = os_path_join output_dir ''embeddings.npy'';
          sentence_path = os_path_join output_dir ''sentences.txt'';
          fs' = np_save fs embeddings_path german_embeddings;
          (written, raised) = write_sentences [] german_sentences
      in (fs'(sentence_path \<mapsto> TextFile written), raised))"

section \<open>app.py\<close>

text \<open>
  The globals loaded at start-up, and the calls a request makes to the encoder and to the
  index, recorded in the order they happen.
\<close>

record app_globals =
  MODEL :: encoder
  FAISS_INDEX :: faiss_index
  SENTENCES :: "pystr list"
  ENGLISH_SENTENCES :: "pystr list"

datatype call = EncodeCall "pystr list" | SearchCall ndarray int

record hit =
  hit_sentence :: pystr
  hit_translation :: pystr
  hit_score :: pystr

text \<open>
  \<^verbatim>\<open>
  def search_endpoint():
      data = request.get_json()
      query_text = data.get('query', '')
      top_k = 5
      if not query_text:
          return jsonify([])
      query_embedding = MODEL.encode([query_text])
      distances, indices = FAISS_INDEX.search(query_embedding, top_k)
      results = []
      for i, idx in enumerate(indices[0]):
          results.append({
              "sentence": SENTENCES[idx],
              "translation": ENGLISH_SENTENCES[idx],
              "score": f"{distances[0][i]:.4f}"
          })
      return jsonify(results)
  \<close>
  \<open>data\<close> is the JSON object of the request, with string members. The function has no
  \<open>try\<close>: an exception of a callee leaves it as it is. The formatting \<open>:.4f\<close> of a float is
  the parameter \<open>fmt\<close>.
\<close>

fun endpoint_loop ::
  "app_globals \<Rightarrow> (real \<Rightarrow> pystr) \<Rightarrow> real list list \<Rightarrow> (nat \<times> int) list \<Rightarrow> hit list
   \<Rightarrow> exn + hit list" where
  "endpoint_loop g fmt distances [] results = Inr results"
| "endpoint_loop g fmt distances ((i, idx) # rest) results =
     (case py_getitem (SENTENCES g) idx of
        Inl e \<Rightarrow> Inl e
      | Inr s \<Rightarrow>
          (case py_getitem (ENGLISH_SENTENCES g) idx of
             Inl e \<Rightarrow> Inl e
           | Inr t \<Rightarrow>
               (case py_getitem distances 0 of
                  Inl e \<Rightarrow> Inl e
                | Inr row \<Rightarrow>
                    (case py_getitem row (int i) of
                       Inl e \<Rightarrow> Inl e
                     | Inr sc \<Rightarrow>
                         endpoint_loop g fmt distances rest
                           (results @ [\<lparr>hit_sentence = s, hit_translation = t,
                                         hit_score = fmt sc\<rparr>])))))"

definition search_endpoint ::
  "app_globals \<Rightarrow> (real \<Rightarrow> pystr) \<Rightarrow> (string \<Rightarrow> pystr option) \<Rightarrow> call list \<times> (exn + hit list)" where
  "search_endpoint g fmt data =
     (let query_text = (case data ''query'' of None \<Rightarrow> [] | Some q \<Rightarrow> q);
          top_k = 5
      in if query_text = [] then ([], Inr [])
         else (case MODEL g [query_text] of
                 Inl e \<Rightarrow> ([EncodeCall [query_text]], Inl e)
               | Inr query_embedding \<Rightarrow>
                   (let calls = [EncodeCall [query_text], SearchCall query_embedding top_k]
                    in case index_search (FAISS_INDEX g) query_embedding top_k of
                         Inl e \<Rightarrow> (calls, Inl e)
                       | Inr (distances, indices) \<Rightarrow>
                           (case py_getitem indices 0 of
                              Inl e \<Rightarrow> (calls, Inl e)
                            | Inr labels \<Rightarrow>
                                (calls, endpoint_loop g fmt distances (enumerate 0 labels) [])))))"

section \<open>Facts about the index\<close>

lemma fvec_L2sqr_nonneg: "0 \<le> fvec_L2sqr x y"
  unfolding fvec_L2sqr_def by (rule sum_list_nonneg) auto

lemma fvec_L2sqr_self: "fvec_L2sqr x x = 0"
  unfolding fvec_L2sqr_def by (induction x) auto

lemma FLT_MAX_pos: "0 < FLT_MAX"
  by (simp add: FLT_MAX_def)

lemma set_candidate:
  "(l, d) \<in> set (candidate v label) \<longleftrightarrow> l = label \<and> v = Fin d \<and> d < FLT_MAX"
  by (auto simp: candidate_def split: fdist.splits if_splits)

lemma set_labelled:
  "(l, d) \<in> set (labelled dis q xb) \<longleftrightarrow>
     (\<exists>j < length xb. l = int j \<and> dis q (xb ! j) = Fin d \<and> d < FLT_MAX)"
proof
  assume "(l, d) \<in> set (labelled dis q xb)"
  then obtain i y where iy: "(i, y) \<in> set (enumerate 0 xb)"
    and mem: "(l, d) \<in> set (candidate (dis q y) (int i))"
    by (auto simp: labelled_def)
  from iy have "i < length xb" and "y = xb ! i"
    by (auto simp: in_set_enumerate_eq)
  with mem show "\<exists>j < length xb. l = int j \<and> dis q (xb ! j) = Fin d \<and> d < FLT_MAX"
    by (auto simp: set_candidate)
next
  assume "\<exists>j < length xb. l = int j \<and> dis q (xb ! j) = Fin d \<and> d < FLT_MAX"
  then obtain j where j: "j < length xb" "l = int j" "dis q (xb ! j) = Fin d" "d < FLT_MAX"
    by blast
  then have "(j, xb ! j) \<in> set (enumerate 0 xb)"
    by (simp add: in_set_enumerate_eq)
  moreover have "(l, d) \<in> set (candidate (dis q (xb ! j)) (int j))"
    using j by (simp add: set_candidate)
  ultimately show "(l, d) \<in> set (labelled dis q xb)"
    unfolding labelled_def by (auto intro!: bexI [of _ "(j, xb ! j)"])
qed

lemma sort_key_hd_min:
  assumes "p \<in> set xs"
  shows "snd (hd (sort_key snd xs)) \<le> snd p"
proof -
  let ?s = "sort_key snd xs"
  have ne: "?s \<noteq> []" using assms by (metis empty_iff list.set(1) set_sort)
  have "sorted (map snd ?s)" by (rule sorted_sort_key)
  moreover have "snd p \<in> set (map snd ?s)" using assms by simp
  ultimately show ?thesis using ne by (cases ?s) auto
qed

lemma knn_one:
  assumes "labelled dis q xb \<noteq> []"
  shows "knn_L2sqr dis xb 1 q = [hd (sort_key snd (labelled dis q xb))]"
proof -
  have "sort_key snd (labelled dis q xb) \<noteq> []"
    using assms by (metis length_0_conv length_sort)
  then show ?thesis
    by (cases "sort_key snd (labelled dis q xb)") (simp_all add: knn_L2sqr_def Let_def)
qed

lemma knn_self:
  assumes i: "i < length xb"
      and zero: "\<forall>v. dis v v = Fin 0"
      and nonneg: "\<forall>x y d. dis x y = Fin d \<longrightarrow> 0 \<le> d"
  shows "\<exists>j < length xb. dis (xb ! i) (xb ! j) = Fin 0 \<and> knn_L2sqr dis xb 1 (xb ! i) = [(int j, 0)]"
proof -
  let ?q = "xb ! i"
  let ?h = "hd (sort_key snd (labelled dis ?q xb))"
  have mem: "(int i, 0) \<in> set (labelled dis ?q xb)"
    using i zero FLT_MAX_pos by (auto simp: set_labelled)
  then have ne: "labelled dis ?q xb \<noteq> []" by auto
  have "snd ?h \<le> snd (int i, 0 :: real)"
    by (rule sort_key_hd_min [OF mem])
  then have le: "snd ?h \<le> 0" by simp
  have "sort_key snd (labelled dis ?q xb) \<noteq> []"
    using ne by (metis length_0_conv length_sort)
  then have "?h \<in> set (sort_key snd (labelled dis ?q xb))" by (rule hd_in_set)
  then have "(fst ?h, snd ?h) \<in> set (labelled dis ?q xb)" by (simp only: set_sort prod.collapse)
  then have "\<exists>j < length xb. fst ?h = int j \<and> dis ?q (xb ! j) = Fin (snd ?h) \<and> snd ?h < FLT_MAX"
    by (simp only: set_labelled)
  then obtain j where j: "j < length xb" "fst ?h = int j" "dis ?q (xb ! j) = Fin (snd ?h)"
    by blast
  from j(3) nonneg have "0 \<le> snd ?h" by blast
  with le have "snd ?h = 0" by simp
  with j have "dis ?q (xb ! j) = Fin 0" and "?h = (int j, 0)"
    by (simp_all add: prod_eq_iff)
  with j(1) knn_one [OF ne] show ?thesis by auto
qed

section \<open>Facts about the text file\<close>

lemma universal_newlines_Cons:
  "c \<noteq> 13 \<Longrightarrow> universal_newlines (c # cs) = c # universal_newlines cs"
  by (cases cs) auto

lemma universal_newlines_id: "13 \<notin> set s \<Longrightarrow> universal_newlines s = s"
  by (induction s) (auto simp: universal_newlines_Cons)

lemma write_sentences_concat:
  "\<forall>s \<in> set ss. utf8_encodable s \<Longrightarrow>
   write_sentences written ss = (written @ concat (map (\<lambda>s. s @ [10]) ss), None)"
  by (induction ss arbitrary: written) auto

lemma readlines_from_line:
  "10 \<notin> set s \<Longrightarrow> readlines_from line (s @ 10 # rest) = (line @ s @ [10]) # readlines_from [] rest"
  by (induction s arbitrary: line) auto

lemma readlines_concat:
  "\<forall>s \<in> set ss. 10 \<notin> set s \<Longrightarrow> readlines (concat (map (\<lambda>s. s @ [10]) ss)) = map (\<lambda>s. s @ [10]) ss"
  unfolding readlines_def
  by (induction ss) (auto simp: readlines_from_line)

lemma py_isspace_newline: "py_isspace 10"
  by (simp add: py_isspace_def)

lemma strip_newline: "strip (s @ [10]) = strip s"
proof (cases "\<forall>c \<in> set s. py_isspace c")
  case True
  then have "dropWhile py_isspace (s @ [10]) = []" and "dropWhile py_isspace s = []"
    by (induction s) (simp_all add: py_isspace_newline)
  then show ?thesis by (simp only: strip_def)
next
  case False
  then have "dropWhile py_isspace (s @ [10]) = dropWhile py_isspace s @ [10]"
    by (induction s) auto
  then have "strip (s @ [10]) = rev (dropWhile py_isspace (10 # rev (dropWhile py_isspace s)))"
    by (simp only: strip_def rev_append rev.simps append.simps)
  then show ?thesis by (simp add: strip_def py_isspace_newline)
qed

lemma kb_paths:
  "os_path_join ''knowledge_base'' ''embeddings.npy'' = ''knowledge_base/embeddings.npy''"
  "os_path_join ''knowledge_base'' ''sentences.txt'' = ''knowledge_base/sentences.txt''"
  by (simp_all add: os_path_join_def)

lemma save_files:
  "fst (save_knowledge_base fs m ss) ''knowledge_base/embeddings.npy'' = Some (NpyFile m)"
  "fst (save_knowledge_base fs m ss) ''knowledge_base/sentences.txt''
     = Some (TextFile (fst (write_sentences [] ss)))"
  "snd (save_knowledge_base fs m ss) = snd (write_sentences [] ss)"
  by (simp_all add: save_knowledge_base_def np_save_def kb_paths Let_def split: prod.splits)

section \<open>Number of results of a search\<close>

text \<open>
  Claim C2, which the code breaks. The library fills a label row up with \<open>-1\<close> when it has
  fewer than \<open>k\<close> candidates, and \<open>search\<close> uses every label as an index into
  \<open>sentences\<close>, where \<open>-1\<close> selects the last sentence. With two stored vectors and \<open>k = 3\<close>
  the label row is \<open>[0, 1, -1]\<close> and \<open>search\<close> returns three results, the third being the
  last sentence once more with the largest float as its distance. The claim has
  \<open>min(3, 2) = 2\<close> results, each with an id in \<open>[0, 2)\<close>.
\<close>

theorem search_repeats_last_sentence:
  "ntotal \<lparr>idx_d = 1, idx_xb = [[0], [3]]\<rparr> = 2 \<and>
   index_search \<lparr>idx_d = 1, idx_xb = [[0], [3]]\<rparr> (NDArray 1 [[0]]) 3
     = Inr ([[0, 9, FLT_MAX]], [[0, 1, - 1]]) \<and>
   search [104, 105] (\<lambda>ts. Inr (NDArray 1 [[0]])) \<lparr>idx_d = 1, idx_xb = [[0], [3]]\<rparr>
       [[97], [98]] 3
     = Inr [([97], 0), ([98], 9), ([98], FLT_MAX)]"
  by (simp add: ntotal_def search_def index_search_def index_search_with_def knn_L2sqr_def
      labelled_def candidate_def exact_L2sqr_def fvec_L2sqr_def FLT_MAX_def Let_def
      py_getitem_def)

section \<open>Searching with a row of the matrix\<close>

text \<open>
  Claim C5, as the code has it. Let the distance computation be non-negative and give \<open>0\<close>
  for a vector and itself (float32 arithmetic on finite entries does, and so does exact
  arithmetic). For the index built from a matrix \<open>M\<close> and a row \<open>v_i\<close> of \<open>M\<close>, the search
  with \<open>v_i\<close> and \<open>k = 1\<close> returns exactly one pair \<open>(j, 0)\<close>, where row \<open>j\<close> of \<open>M\<close> is a row
  whose computed distance to \<open>v_i\<close> is \<open>0\<close>; row \<open>i\<close> is such a row, and \<open>j = i\<close> whenever it
  is the only one.
\<close>

theorem self_search:
  assumes "\<forall>v. dis v v = Fin 0" and "\<forall>x y d. dis x y = Fin d \<longrightarrow> 0 \<le> d"
      and "i < nrows m" and "create_faiss_index m = Inr ix"
  shows "\<exists>j < nrows m. dis (rows m ! i) (rows m ! j) = Fin 0 \<and>
           index_search_with dis ix (NDArray (ncols m) [rows m ! i]) 1 = Inr ([[0]], [[int j]]) \<and>
           ((\<forall>j' < nrows m. dis (rows m ! i) (rows m ! j') = Fin 0 \<longrightarrow> j' = i) \<longrightarrow> j = i)"
proof -
  from assms(4) have ix: "ix = \<lparr>idx_d = ncols m, idx_xb = rows m\<rparr>"
    by (simp add: create_faiss_index_def IndexFlatL2_def index_add_def Let_def)
  from assms(3) have i: "i < length (rows m)" by (simp add: nrows_def)
  from knn_self [OF i assms(1) assms(2)] obtain j
    where j: "j < length (rows m)" "dis (rows m ! i) (rows m ! j) = Fin 0"
      and knn: "knn_L2sqr dis (rows m) 1 (rows m ! i) = [(int j, 0)]" by blast
  from knn have "knn_L2sqr dis (rows m) (Suc 0) (rows m ! i) = [(int j, 0)]" by simp
  then have "index_search_with dis ix (NDArray (ncols m) [rows m ! i]) 1 = Inr ([[0]], [[int j]])"
    by (simp add: index_search_with_def ix)
  with j show ?thesis by (auto simp: nrows_def)
qed

text \<open>
  The theorem at the matrix with rows \<open>[0]\<close> and \<open>[3]\<close>, searched with its second row, for
  the distance without rounding.
\<close>

theorem self_search_witness:
  "\<exists>j < nrows (NDArray 1 [[0], [3]]).
     exact_L2sqr (rows (NDArray 1 [[0], [3]]) ! 1) (rows (NDArray 1 [[0], [3]]) ! j) = Fin 0 \<and>
     index_search_with exact_L2sqr \<lparr>idx_d = 1, idx_xb = [[0], [3]]\<rparr>
       (NDArray (ncols (NDArray 1 [[0], [3]])) [rows (NDArray 1 [[0], [3]]) ! 1]) 1
       = Inr ([[0]], [[int j]]) \<and>
     ((\<forall>j' < nrows (NDArray 1 [[0], [3]]).
          exact_L2sqr (rows (NDArray 1 [[0], [3]]) ! 1) (rows (NDArray 1 [[0], [3]]) ! j') = Fin 0
          \<longrightarrow> j' = 1) \<longrightarrow> j = 1)"
proof -
  have zero: "\<forall>v. exact_L2sqr v v = Fin 0"
    by (simp add: exact_L2sqr_def fvec_L2sqr_self)
  have nonneg: "\<forall>x y d. exact_L2sqr x y = Fin d \<longrightarrow> 0 \<le> d"
    by (auto simp: exact_L2sqr_def fvec_L2sqr_nonneg)
  have i: "1 < nrows (NDArray 1 [[0], [3]])"
    by (simp add: nrows_def)
  have built: "create_faiss_index (NDArray 1 [[0], [3]]) = Inr \<lparr>idx_d = 1, idx_xb = [[0], [3]]\<rparr>"
    by (simp add: create_faiss_index_def IndexFlatL2_def index_add_def Let_def)
  show ?thesis by (rule self_search [OF zero nonneg i built])
qed

text \<open>
  Two equal rows: row 0 and row 1 of the matrix are the same query vector, and one search
  has one answer, so the two searches cannot return label 0 and label 1. Here the search
  with row 1 returns label 0.
\<close>

theorem self_search_duplicate_rows_counterexample:
  "create_faiss_index (NDArray 1 [[0], [0]]) = Inr \<lparr>idx_d = 1, idx_xb = [[0], [0]]\<rparr> \<and>
   \<not> (index_search \<lparr>idx_d = 1, idx_xb = [[0], [0]]\<rparr>
          (NDArray 1 [rows (NDArray 1 [[0], [0]]) ! 0]) 1 = Inr ([[0]], [[0]]) \<and>
        index_search \<lparr>idx_d = 1, idx_xb = [[0], [0]]\<rparr>
          (NDArray 1 [rows (NDArray 1 [[0], [0]]) ! 1]) 1 = Inr ([[0]], [[1]])) \<and>
   index_search \<lparr>idx_d = 1, idx_xb = [[0], [0]]\<rparr>
     (NDArray 1 [rows (NDArray 1 [[0], [0]]) ! 1]) 1 = Inr ([[0]], [[0]])"
  by (simp add: create_faiss_index_def IndexFlatL2_def index_add_def index_search_def
      index_search_with_def knn_L2sqr_def labelled_def candidate_def exact_L2sqr_def
      fvec_L2sqr_def FLT_MAX_def Let_def)

section \<open>A number of results that is not positive\<close>

text \<open>
  Claim C6, as the code has it. \<open>search\<close> passes \<open>top_k\<close> to the library without a check of
  its own; for \<open>top_k \<le> 0\<close> and a query the encoder has embedded, the library's assertion
  \<open>k > 0\<close> fails and \<open>search\<close> raises \<open>AssertionError\<close> instead of returning a list.
\<close>

theorem search_nonpositive_k:
  assumes "top_k \<le> 0" and "model [query_text] = Inr x"
  shows "search query_text model ix sentences top_k = Inl AssertionError"
  using assms by (simp add: search_def index_search_def index_search_with_def)

text \<open>The theorem at \<open>top_k = -1\<close>.\<close>

theorem search_nonpositive_k_witness:
  "search [104, 105] (\<lambda>ts. Inr (NDArray 1 [[0]])) \<lparr>idx_d = 1, idx_xb = [[0]]\<rparr> [[72, 105]] (- 1)
     = Inl AssertionError"
  using search_nonpositive_k [of "- 1" "\<lambda>ts. Inr (NDArray 1 [[0]])" "[104, 105]" "NDArray 1 [[0]]"
      "\<lparr>idx_d = 1, idx_xb = [[0]]\<rparr>" "[[72, 105]]"]
  by simp

text \<open>With \<open>top_k = 0\<close> the search does not return the empty list: it raises.\<close>

theorem search_zero_k_counterexample:
  "search [104, 105] (\<lambda>ts. Inr (NDArray 1 [[0]])) \<lparr>idx_d = 1, idx_xb = [[0]]\<rparr> [[72, 105]] 0
     = Inl AssertionError \<and>
   search [104, 105] (\<lambda>ts. Inr (NDArray 1 [[0]])) \<lparr>idx_d = 1, idx_xb = [[0]]\<rparr> [[72, 105]] 0
     \<noteq> Inr []"
  by (simp add: search_def index_search_def index_search_with_def)

section \<open>Building the index\<close>

text \<open>
  Claim C7, as the code has it. \<open>create_faiss_index\<close> validates nothing: for every matrix of
  shape \<open>(N, D)\<close>, also with \<open>N = 0\<close>, it succeeds and returns an index of dimension \<open>D\<close>
  that holds the \<open>N\<close> rows, so its element count is \<open>N\<close>. (A numpy array has no ragged
  rows, so rows of different lengths do not reach the function.)
\<close>

theorem create_faiss_index_total:
  "create_faiss_index m = Inr \<lparr>idx_d = ncols m, idx_xb = rows m\<rparr>
   \<and> ntotal \<lparr>idx_d = ncols m, idx_xb = rows m\<rparr> = nrows m"
  by (simp add: create_faiss_index_def IndexFlatL2_def index_add_def ntotal_def nrows_def Let_def)

text \<open>The theorem at a matrix of two rows.\<close>

theorem create_faiss_index_total_witness:
  "create_faiss_index (NDArray 2 [[0, 0], [1, 1]]) = Inr \<lparr>idx_d = 2, idx_xb = [[0, 0], [1, 1]]\<rparr>
   \<and> ntotal \<lparr>idx_d = 2, idx_xb = [[0, 0], [1, 1]]\<rparr> = 2"
  using create_faiss_index_total [of "NDArray 2 [[0, 0], [1, 1]]"]
  by (simp add: nrows_def)

text \<open>A matrix of shape \<open>(0, 3)\<close>: the build succeeds with an empty index; no error is raised.\<close>

theorem create_faiss_index_empty_counterexample:
  "nrows (NDArray 3 []) = 0 \<and>
   create_faiss_index (NDArray 3 []) = Inr \<lparr>idx_d = 3, idx_xb = []\<rparr> \<and>
   create_faiss_index (NDArray 3 []) \<noteq> Inl (PyExc ''EmptyCorpusError'')"
  by (simp add: nrows_def create_faiss_index_def IndexFlatL2_def index_add_def Let_def)

section \<open>Loading the knowledge base\<close>

text \<open>
  Claim C8, as the code has it. When one of the two files is missing,
  \<open>load_knowledge_base\<close> returns \<open>(None, None)\<close> and raises nothing. When both are there
  and readable, it returns the stored matrix and the stripped lines of the sentence file;
  the number of lines and the number of rows are not compared.
\<close>

theorem load_knowledge_base_cases:
  "(fs (os_path_join d ''embeddings.npy'') = None \<or> fs (os_path_join d ''sentences.txt'') = None
      \<longrightarrow> load_knowledge_base fs d = Inr (None, None))
   \<and> (\<forall>m t. fs (os_path_join d ''embeddings.npy'') = Some (NpyFile m)
            \<and> fs (os_path_join d ''sentences.txt'') = Some (TextFile t)
      \<longrightarrow> load_knowledge_base fs d =
            Inr (Some m, Some (map strip (readlines (universal_newlines t)))))"
  by (auto simp: load_knowledge_base_def os_path_exists_def np_load_def open_read_def Let_def)

text \<open>The theorem at a directory without the sentence file, and at a complete one.\<close>

theorem load_knowledge_base_cases_witness:
  "load_knowledge_base
     [''knowledge_base/embeddings.npy'' \<mapsto> NpyFile (NDArray 1 [[0], [1], [2]])] ''knowledge_base''
   = Inr (None, None)
   \<and> load_knowledge_base
     [''knowledge_base/embeddings.npy'' \<mapsto> NpyFile (NDArray 1 [[0], [1]]),
      ''knowledge_base/sentences.txt'' \<mapsto> TextFile [32, 97, 10, 98, 13, 10]] ''knowledge_base''
   = Inr (Some (NDArray 1 [[0], [1]]), Some [[97], [98]])"
  using load_knowledge_base_cases
      [of "[''knowledge_base/embeddings.npy'' \<mapsto> NpyFile (NDArray 1 [[0], [1], [2]])]"
          "''knowledge_base''"]
    load_knowledge_base_cases
      [of "[''knowledge_base/embeddings.npy'' \<mapsto> NpyFile (NDArray 1 [[0], [1]]),
            ''knowledge_base/sentences.txt'' \<mapsto> TextFile [32, 97, 10, 98, 13, 10]]"
          "''knowledge_base''"]
  by (simp add: os_path_join_def readlines_def strip_def py_isspace_def)

text \<open>
  Two sentences beside a matrix of three rows: the load succeeds and returns both, of
  different lengths.
\<close>

theorem load_knowledge_base_mismatch_counterexample:
  "load_knowledge_base
     [''knowledge_base/embeddings.npy'' \<mapsto> NpyFile (NDArray 1 [[0], [1], [2]]),
      ''knowledge_base/sentences.txt'' \<mapsto> TextFile [97, 10, 98, 10]] ''knowledge_base''
   = Inr (Some (NDArray 1 [[0], [1], [2]]), Some [[97], [98]])
   \<and> nrows (NDArray 1 [[0], [1], [2]]) = 3 \<and> length [[97], [98 :: nat]] = 2"
  by (simp add: load_knowledge_base_def os_path_join_def os_path_exists_def np_load_def
      open_read_def Let_def readlines_def strip_def py_isspace_def nrows_def)

section \<open>The empty query\<close>

text \<open>
  Claim C4, as the code has it. A request whose query is absent or the empty string gets the
  empty list, and neither the encoder nor the index is called. Every other query, also one
  of white space only, is passed to the encoder.
\<close>

theorem search_endpoint_empty_query:
  "(data ''query'' = None \<or> data ''query'' = Some [] \<longrightarrow> search_endpoint g fmt data = ([], Inr []))
   \<and> (\<forall>q. data ''query'' = Some q \<and> q \<noteq> [] \<longrightarrow>
          (\<exists>calls. fst (search_endpoint g fmt data) = EncodeCall [q] # calls))"
  by (auto simp: search_endpoint_def Let_def split: sum.splits prod.splits)

text \<open>The theorem at the empty query and at the query \<open>"h"\<close>.\<close>

theorem search_endpoint_empty_query_witness:
  "search_endpoint
     \<lparr>MODEL = (\<lambda>ts. Inr (NDArray 1 [[0]])), FAISS_INDEX = \<lparr>idx_d = 1, idx_xb = [[0]]\<rparr>,
       SENTENCES = [[72, 105]], ENGLISH_SENTENCES = [[72, 105]]\<rparr>
     (\<lambda>x. []) [''query'' \<mapsto> []] = ([], Inr [])
   \<and> (\<exists>calls. fst (search_endpoint
     \<lparr>MODEL = (\<lambda>ts. Inr (NDArray 1 [[0]])), FAISS_INDEX = \<lparr>idx_d = 1, idx_xb = [[0]]\<rparr>,
       SENTENCES = [[72, 105]], ENGLISH_SENTENCES = [[72, 105]]\<rparr>
     (\<lambda>x. []) [''query'' \<mapsto> [104]]) = EncodeCall [[104]] # calls)"
  using search_endpoint_empty_query [of "[''query'' \<mapsto> []]"
     "\<lparr>MODEL = (\<lambda>ts. Inr (NDArray 1 [[0]])), FAISS_INDEX = \<lparr>idx_d = 1, idx_xb = [[0]]\<rparr>,
       SENTENCES = [[72, 105]], ENGLISH_SENTENCES = [[72, 105]]\<rparr>"
     "\<lambda>x. []"]
    search_endpoint_empty_query [of "[''query'' \<mapsto> [104]]"
     "\<lparr>MODEL = (\<lambda>ts. Inr (NDArray 1 [[0]])), FAISS_INDEX = \<lparr>idx_d = 1, idx_xb = [[0]]\<rparr>,
       SENTENCES = [[72, 105]], ENGLISH_SENTENCES = [[72, 105]]\<rparr>"
     "\<lambda>x. []"]
  by simp

text \<open>
  The query \<open>" "\<close> (one space) is white space only; the encoder and the index are both
  called, and five results come back.
\<close>

theorem search_endpoint_whitespace_counterexample:
  "list_all py_isspace [32] \<and>
   search_endpoint
     \<lparr>MODEL = (\<lambda>ts. Inr (NDArray 1 [[0]])),
       FAISS_INDEX = \<lparr>idx_d = 1, idx_xb = [[0], [1], [2], [3], [4]]\<rparr>,
       SENTENCES = [[97], [98], [99], [100], [101]],
       ENGLISH_SENTENCES = [[65], [66], [67], [68], [69]]\<rparr>
     (\<lambda>x. []) [''query'' \<mapsto> [32]]
   = ([EncodeCall [[32]], SearchCall (NDArray 1 [[0]]) 5],
      Inr [\<lparr>hit_sentence = [97], hit_translation = [65], hit_score = []\<rparr>,
           \<lparr>hit_sentence = [98], hit_translation = [66], hit_score = []\<rparr>,
           \<lparr>hit_sentence = [99], hit_translation = [67], hit_score = []\<rparr>,
           \<lparr>hit_sentence = [100], hit_translation = [68], hit_score = []\<rparr>,
           \<lparr>hit_sentence = [101], hit_translation = [69], hit_score = []\<rparr>])"
  by (simp add: search_endpoint_def index_search_def index_search_with_def knn_L2sqr_def
      labelled_def candidate_def exact_L2sqr_def fvec_L2sqr_def FLT_MAX_def Let_def
      py_getitem_def py_isspace_def)

section \<open>Failures during a request\<close>

text \<open>
  Claim C9, as the code has it. For a request with a non-empty query: when the encoder
  raises, and when the index lookup raises, the same exception leaves \<open>search_endpoint\<close>,
  not wrapped in another one, and no result list is returned; after a failure of the
  encoder the index is not called.
\<close>

theorem search_endpoint_failure:
  assumes "data ''query'' = Some q" and "q \<noteq> []"
  shows "(\<forall>e. MODEL g [q] = Inl e \<longrightarrow> search_endpoint g fmt data = ([EncodeCall [q]], Inl e))
       \<and> (\<forall>x e. MODEL g [q] = Inr x \<and> index_search (FAISS_INDEX g) x 5 = Inl e \<longrightarrow>
            search_endpoint g fmt data = ([EncodeCall [q], SearchCall x 5], Inl e))"
  using assms by (simp add: search_endpoint_def Let_def)

text \<open>
  The theorem at an encoder that raises, and at an encoder whose vectors have the wrong
  dimension for the index.
\<close>

theorem search_endpoint_failure_witness:
  "search_endpoint
     \<lparr>MODEL = (\<lambda>ts. Inl (PyExc ''EncodingError'')), FAISS_INDEX = \<lparr>idx_d = 1, idx_xb = [[0]]\<rparr>,
       SENTENCES = [[72, 105]], ENGLISH_SENTENCES = [[72, 105]]\<rparr>
     (\<lambda>x. []) [''query'' \<mapsto> [104]]
     = ([EncodeCall [[104]]], Inl (PyExc ''EncodingError''))
   \<and> search_endpoint
     \<lparr>MODEL = (\<lambda>ts. Inr (NDArray 2 [[0, 0]])), FAISS_INDEX = \<lparr>idx_d = 1, idx_xb = [[0]]\<rparr>,
       SENTENCES = [[72, 105]], ENGLISH_SENTENCES = [[72, 105]]\<rparr>
     (\<lambda>x. []) [''query'' \<mapsto> [104]]
     = ([EncodeCall [[104]], SearchCall (NDArray 2 [[0, 0]]) 5], Inl AssertionError)"
  using search_endpoint_failure [of "[''query'' \<mapsto> [104]]" "[104]"
     "\<lparr>MODEL = (\<lambda>ts. Inl (PyExc ''EncodingError'')), FAISS_INDEX = \<lparr>idx_d = 1, idx_xb = [[0]]\<rparr>,
       SENTENCES = [[72, 105]], ENGLISH_SENTENCES = [[72, 105]]\<rparr>"
     "\<lambda>x. []"]
    search_endpoint_failure [of "[''query'' \<mapsto> [104]]" "[104]"
     "\<lparr>MODEL = (\<lambda>ts. Inr (NDArray 2 [[0, 0]])), FAISS_INDEX = \<lparr>idx_d = 1, idx_xb = [[0]]\<rparr>,
       SENTENCES = [[72, 105]], ENGLISH_SENTENCES = [[72, 105]]\<rparr>"
     "\<lambda>x. []"]
  by (simp add: index_search_def index_search_with_def)

text \<open>
  An encoder that raises \<open>EncodingError\<close>: the request ends with that very exception, which
  is not a \<open>SearchError\<close>.
\<close>

theorem search_endpoint_unwrapped_counterexample:
  "search_endpoint
     \<lparr>MODEL = (\<lambda>ts. Inl (PyExc ''EncodingError'')), FAISS_INDEX = \<lparr>idx_d = 1, idx_xb = [[0]]\<rparr>,
       SENTENCES = [[72, 105]], ENGLISH_SENTENCES = [[72, 105]]\<rparr>
     (\<lambda>x. []) [''query'' \<mapsto> [104]]
   = ([EncodeCall [[104]]], Inl (PyExc ''EncodingError''))
   \<and> PyExc ''EncodingError'' \<noteq> PyExc ''SearchError''"
  by (simp add: search_endpoint_def Let_def)

section \<open>Saving the sentences and loading them back\<close>

text \<open>
  Claim C10, as the code has it. For every sentence list whose sentences can be encoded as
  UTF-8 (no surrogate code point) and contain no line break (neither \<open>"\n"\<close> nor \<open>"\r"\<close>),
  saving succeeds, and loading what was saved returns the matrix and, for every sentence,
  its stripped form; so the round trip gives the list back exactly when no sentence has
  white space at either end.
\<close>

theorem save_load_sentences:
  assumes "\<forall>s \<in> set ss. utf8_encodable s \<and> 10 \<notin> set s \<and> 13 \<notin> set s"
  shows "snd (save_knowledge_base fs m ss) = None
         \<and> load_knowledge_base (fst (save_knowledge_base fs m ss)) ''knowledge_base''
           = Inr (Some m, Some (map strip ss))
         \<and> (load_knowledge_base (fst (save_knowledge_base fs m ss)) ''knowledge_base''
              = Inr (Some m, Some ss) \<longleftrightarrow> (\<forall>s \<in> set ss. strip s = s))"
proof -
  let ?text = "concat (map (\<lambda>s. s @ [10]) ss)"
  from assms have "\<forall>s \<in> set ss. utf8_encodable s" by simp
  then have written: "write_sentences [] ss = (?text, None)"
    using write_sentences_concat [of ss "[]"] by simp
  have "13 \<notin> set ?text" using assms by auto
  then have un: "universal_newlines ?text = ?text" by (rule universal_newlines_id)
  have "readlines ?text = map (\<lambda>s. s @ [10]) ss"
    using assms by (intro readlines_concat) simp
  then have "map strip (readlines ?text) = map strip ss"
    by (simp add: strip_newline o_def)
  then have loaded: "load_knowledge_base (fst (save_knowledge_base fs m ss)) ''knowledge_base''
           = Inr (Some m, Some (map strip ss))"
    by (simp add: load_knowledge_base_def kb_paths save_files written os_path_exists_def
        np_load_def open_read_def un Let_def)
  have saved: "snd (save_knowledge_base fs m ss) = None"
    by (simp add: save_files written)
  have "map strip ss = ss \<longleftrightarrow> (\<forall>s \<in> set ss. strip s = s)"
    by (induction ss) auto
  with loaded saved show ?thesis by simp
qed

text \<open>The theorem at the sentences \<open>" a "\<close> and \<open>"b"\<close>.\<close>

theorem save_load_sentences_witness:
  "snd (save_knowledge_base (\<lambda>p. None) (NDArray 1 [[0], [1]]) [[32, 97, 32], [98]]) = None
   \<and> load_knowledge_base
     (fst (save_knowledge_base (\<lambda>p. None) (NDArray 1 [[0], [1]]) [[32, 97, 32], [98]]))
     ''knowledge_base''
   = Inr (Some (NDArray 1 [[0], [1]]), Some [[97], [98]])"
  using save_load_sentences [of "[[32, 97, 32], [98]]" "\<lambda>p. None" "NDArray 1 [[0], [1]]"]
  by (simp add: strip_def py_isspace_def utf8_encodable_def)

text \<open>
  The one sentence \<open>"a\nb"\<close> is saved without an error and comes back as the two sentences
  \<open>"a"\<close> and \<open>"b"\<close>; its stripped form is \<open>"a\nb"\<close> itself.
\<close>

theorem save_load_newline_counterexample:
  "snd (save_knowledge_base (\<lambda>p. None) (NDArray 1 [[0]]) [[97, 10, 98]]) = None
   \<and> load_knowledge_base
     (fst (save_knowledge_base (\<lambda>p. None) (NDArray 1 [[0]]) [[97, 10, 98]])) ''knowledge_base''
   = Inr (Some (NDArray 1 [[0]]), Some [[97], [98]])
   \<and> map strip [[97, 10, 98]] = [[97, 10, 98]]"
  by (simp add: load_knowledge_base_def kb_paths save_files os_path_exists_def np_load_def
      open_read_def Let_def readlines_def strip_def py_isspace_def utf8_encodable_def)

text \<open>
  A sentence with a surrogate code point, \<open>"\ud800"\<close>: the write raises, the sentence file
  stays empty, and a later load returns no sentence.
\<close>

lemma save_surrogate_raises:
  "snd (save_knowledge_base (\<lambda>p. None) (NDArray 1 [[0]]) [[55296]])
     = Some (PyExc ''UnicodeEncodeError'')
   \<and> load_knowledge_base
     (fst (save_knowledge_base (\<lambda>p. None) (NDArray 1 [[0]]) [[55296]])) ''knowledge_base''
   = Inr (Some (NDArray 1 [[0]]), Some [])"
  by (simp add: load_knowledge_base_def kb_paths save_files os_path_exists_def np_load_def
      open_read_def Let_def readlines_def utf8_encodable_def)

end
